theory Spec2Isabelle
  imports Complex_Main
begin

section \<open>Python exceptions\<close>

text \<open>The exceptions the modelled code can meet; an operation that may raise returns a sum.\<close>

datatype py_exception =
  IOError | ValueError | IndexError | OverflowError | SceneError string

section \<open>Player character (src/models/entities/player.py)\<close>

subsection \<open>Enumerations and configuration\<close>

datatype PlayerState =
  IDLE | WALK | RUN | ATTACK_LIGHT_1 | ATTACK_LIGHT_2 | ATTACK_HEAVY | BLOCK | HURT | DEATH

datatype PlayerAction =
  MOVE_LEFT | MOVE_RIGHT | JUMP | SPRINT | BLOCK_ACTION | ATTACK_LIGHT | ATTACK_HEAVY_ACTION

text \<open>
  The module \<open>src.core.constants\<close> is imported by the player but is not among the
  sources, so the values it supplies are a parameter of every operation that reads one.
  Positions, speeds and timers are rationals. The damage reduction factor is not a field
  here: the product it enters is truncated to an integer, so the rounding of the float
  product matters, and the product is a parameter of \<open>take_damage\<close> below.
\<close>

record constants =
  MAX_HEALTH :: int
  MAX_MANA :: int
  GRAVITY :: rat
  JUMP_SPEED :: rat
  MAX_FALL_SPEED :: rat
  BASE_MOVEMENT_SPEED :: rat
  SPRINT_MULTIPLIER :: rat
  DOUBLE_CLICK_THRESHOLD_MS :: int
  INVULNERABILITY_DURATION :: rat

subsection \<open>Animation and AnimationSet\<close>

text \<open>
  Modelled from the spec: the classes \<open>Animation\<close> and \<open>AnimationSet\<close> of
  \<open>src.models.animation\<close>, which the player drives but which are not among the
  sources. An animation is a frame count, a frame rate, a loop flag, the current frame
  index and the elapsed-time accumulator. Advancing accumulates time and, once a frame
  duration has elapsed, moves the index by the number of whole frame durations, wrapping
  when looping and clamping at the last frame otherwise. The frame rate is a positive
  configured constant; the model says nothing meaningful for a rate of zero.
\<close>

record animation =
  frame_count :: nat
  fps :: rat
  loop :: bool
  frame_index :: nat
  elapsed :: rat

definition frame_duration :: "animation \<Rightarrow> rat" where
  "frame_duration a = 1 / fps a"

definition advance :: "rat \<Rightarrow> animation \<Rightarrow> animation" where
  "advance delta_time a =
     (let e = elapsed a + delta_time; d = frame_duration a in
      if e \<ge> d then
        (let steps = nat \<lfloor>e / d\<rfloor>;
             i = frame_index a + steps;
             i' = (if loop a then i mod frame_count a else min i (frame_count a - 1))
         in a\<lparr>frame_index := i', elapsed := e - of_nat steps * d\<rparr>)
      else a\<lparr>elapsed := e\<rparr>)"

definition animation_is_finished :: "animation \<Rightarrow> bool" where
  "animation_is_finished a = (\<not> loop a \<and> frame_index a \<ge> frame_count a - 1)"

definition reset :: "animation \<Rightarrow> animation" where
  "reset a = a\<lparr>frame_index := 0, elapsed := 0\<rparr>"

text \<open>
  Modelled from the spec: an \<open>AnimationSet\<close> binds every state to an animation and
  has an active state (none before the first \<open>set_state\<close>). Switching to the state that
  is already active does nothing; any other switch resets the target animation to frame 0.
\<close>

record animation_set =
  bound :: "PlayerState \<Rightarrow> animation"
  active :: "PlayerState option"

definition set_state :: "PlayerState \<Rightarrow> animation_set \<Rightarrow> animation_set" where
  "set_state s an =
     (if active an = Some s then an
      else an\<lparr>bound := (bound an)(s := reset (bound an s)), active := Some s\<rparr>)"

definition is_finished :: "animation_set \<Rightarrow> bool" where
  "is_finished an =
     (case active an of None \<Rightarrow> False | Some s \<Rightarrow> animation_is_finished (bound an s))"

definition advance_active :: "rat \<Rightarrow> animation_set \<Rightarrow> animation_set" where
  "advance_active delta_time an =
     (case active an of
        None \<Rightarrow> an
      | Some s \<Rightarrow> an\<lparr>bound := (bound an)(s := advance delta_time (bound an s))\<rparr>)"

text \<open>A frame reference: the state it belongs to, its index, and the mirror flag.\<close>

type_synonym frame = "PlayerState option \<times> nat \<times> bool"

definition get_current_frame :: "bool \<Rightarrow> animation_set \<Rightarrow> frame" where
  "get_current_frame flip_x an =
     (active an, (case active an of None \<Rightarrow> 0 | Some s \<Rightarrow> frame_index (bound an s)), flip_x)"

subsection \<open>The player object\<close>

text \<open>
  The fields up to \<open>removed\<close> are those of the base class \<open>Character\<close>
  (\<open>src.models.entities.character\<close>, not among the sources; the fields are the ones
  the spec's data model lists and the player's code reads and writes). \<open>removed\<close> records
  the call of the sprite's \<open>kill()\<close>. The remaining fields are assigned in
  \<open>Player.__init__\<close>.
\<close>

record player =
  position :: "rat \<times> rat"
  velocity :: "rat \<times> rat"
  acceleration :: "rat \<times> rat"
  health :: int
  on_ground :: bool
  invulnerable :: bool
  invulnerable_timer :: rat
  facing_left :: bool
  removed :: bool
  mana :: int
  max_mana :: int
  coins :: int
  move_direction :: int
  is_sprinting :: bool
  jump_requested :: bool
  is_blocking :: bool
  last_right_click_time :: int
  current_state :: PlayerState
  animations :: animation_set
  image :: frame


text \<open>
  \<open>Player.__init__\<close>. The animations come from \<open>_load_animations\<close>, which reads image
  files; its result is the argument \<open>anims\<close>. Modelled from the spec: the initial values
  of the base-class fields (\<open>Character.__init__\<close> is not among the sources): the given
  position and health, zero velocity and acceleration, airborne, vulnerable, facing right.
\<close>

definition new_player ::
  "constants \<Rightarrow> (PlayerState \<Rightarrow> animation) \<Rightarrow> rat \<Rightarrow> rat \<Rightarrow> int \<Rightarrow> player" where
  "new_player c anims x y hp =
     (let an = set_state IDLE \<lparr>bound = anims, active = None\<rparr> in
      \<lparr>position = (x, y), velocity = (0, 0), acceleration = (0, 0), health = hp,
       on_ground = False, invulnerable = False, invulnerable_timer = 0,
       facing_left = False, removed = False,
       mana = MAX_MANA c, max_mana = MAX_MANA c, coins = 0,
       move_direction = 0, is_sprinting = False, jump_requested = False,
       is_blocking = False, last_right_click_time = 0,
       current_state = IDLE, animations = an,
       image = get_current_frame False an\<rparr>)"

subsection \<open>State transitions and input handling\<close>

definition can_attack :: "player \<Rightarrow> bool" where
  "can_attack p = (current_state p \<in> {IDLE, WALK, RUN})"

definition enter_state :: "PlayerState \<Rightarrow> player \<Rightarrow> player" where
  "enter_state new_state p =
     (if current_state p = new_state then p
      else p\<lparr>current_state := new_state, animations := set_state new_state (animations p)\<rparr>)"

fun handle_action :: "PlayerAction \<Rightarrow> bool \<Rightarrow> player \<Rightarrow> player" where
  "handle_action MOVE_LEFT pressed p =
     p\<lparr>move_direction :=
         (if pressed then -1 else (if move_direction p \<noteq> -1 then move_direction p else 0))\<rparr>"
| "handle_action MOVE_RIGHT pressed p =
     p\<lparr>move_direction :=
         (if pressed then 1 else (if move_direction p \<noteq> 1 then move_direction p else 0))\<rparr>"
| "handle_action JUMP pressed p =
     (if pressed \<and> \<not> is_blocking p \<and> on_ground p then p\<lparr>jump_requested := True\<rparr> else p)"
| "handle_action SPRINT pressed p = p\<lparr>is_sprinting := pressed\<rparr>"
| "handle_action BLOCK_ACTION pressed p =
     (let p1 = p\<lparr>is_blocking := pressed\<rparr> in
      if pressed then enter_state BLOCK (p1\<lparr>jump_requested := False\<rparr>)
      else if current_state p1 = BLOCK then enter_state IDLE p1
      else p1)"
| "handle_action ATTACK_LIGHT pressed p = p\<lparr>is_blocking := pressed\<rparr>"
| "handle_action ATTACK_HEAVY_ACTION pressed p = p\<lparr>is_blocking := pressed\<rparr>"

text \<open>
  \<open>random.choice(seq)\<close> returns the element at a random index below the length of
  \<open>seq\<close>; the random draw is the argument \<open>rnd\<close>.
\<close>

definition random_choice :: "'a list \<Rightarrow> nat \<Rightarrow> 'a" where
  "random_choice xs rnd = xs ! (rnd mod length xs)"

definition handle_mouse_click :: "constants \<Rightarrow> nat \<Rightarrow> int \<Rightarrow> int \<Rightarrow> player \<Rightarrow> player" where
  "handle_mouse_click c rnd button current_time p =
     (if \<not> can_attack p then p
      else if button = 1 then
        enter_state (random_choice [ATTACK_LIGHT_1, ATTACK_LIGHT_2] rnd) p
      else if button = 3 then
        (if current_time - last_right_click_time p \<le> DOUBLE_CLICK_THRESHOLD_MS c
         then (enter_state ATTACK_HEAVY p)\<lparr>last_right_click_time := 0\<rparr>
         else p\<lparr>last_right_click_time := current_time\<rparr>)
      else p)"

subsection \<open>Damage\<close>

text \<open>
  A Python float is a finite value (every finite double is a rational number), an infinity
  or a NaN. \<open>int(x)\<close> truncates a finite float towards zero, and raises
  \<open>OverflowError\<close> on an infinity and \<open>ValueError\<close> on a NaN.
\<close>

datatype pyfloat = Finite rat | Infinity | NaN

definition truncate_towards_zero :: "rat \<Rightarrow> int" where
  "truncate_towards_zero x = (if x \<ge> 0 then \<lfloor>x\<rfloor> else \<lceil>x\<rceil>)"

definition py_int_of_float :: "pyfloat \<Rightarrow> py_exception + int" where
  "py_int_of_float x =
     (case x of
        Finite q \<Rightarrow> Inr (truncate_towards_zero q)
      | Infinity \<Rightarrow> Inl OverflowError
      | NaN \<Rightarrow> Inl ValueError)"



text \<open>
  The assignment \<open>amount = max(1, int(amount * PlayerConstants.BLOCK_DAMAGE_REDUCTION))\<close>
  of the blocking branch. The product multiplies an int by a constant of the absent
  constants module with Python's own arithmetic, so the product as a whole is the
  parameter \<open>reduced\<close>: for an amount it gives the float Python computes, or the
  exception the multiplication raises.
\<close>

definition reduced_amount :: "(int \<Rightarrow> py_exception + pyfloat) \<Rightarrow> int \<Rightarrow> py_exception + int" where
  "reduced_amount reduced amount =
     (case reduced amount of
        Inl e \<Rightarrow> Inl e
      | Inr x \<Rightarrow> (case py_int_of_float x of Inl e \<Rightarrow> Inl e | Inr k \<Rightarrow> Inr (max 1 k)))"


text \<open>
  The product \<open>n * 0.5\<close> as Python computes it, for evaluating calls with the reduction
  factor 0.5. The int is first converted to a double: its magnitude \<open>a\<close> is rounded to
  53 significant bits, that is to a multiple of \<open>q = 2 ^ (bit_length a - 53)\<close> (of 1 when
  \<open>a\<close> has at most 53 bits), ties going to the even multiple, and the conversion raises
  \<open>OverflowError\<close> when the rounded magnitude reaches \<open>2 ^ 1024\<close>. Halving a double
  that came from an int is exact.
\<close>

fun bit_length :: "nat \<Rightarrow> nat" where
  "bit_length n = (if n = 0 then 0 else bit_length (n div 2) + 1)"

definition round_half_even :: "nat \<Rightarrow> nat \<Rightarrow> nat" where
  "round_half_even a q =
     (let m = a div q; rest = a mod q in
      if 2 * rest < q then m
      else if 2 * rest > q then m + 1
      else if even m then m else m + 1)"

definition int_to_float :: "int \<Rightarrow> py_exception + rat" where
  "int_to_float n =
     (let a = nat \<bar>n\<bar>;
          q = 2 ^ (bit_length a - 53);
          r = round_half_even a q * q
      in if r \<ge> 2 ^ 1024 then Inl OverflowError else Inr (of_int (sgn n * int r)))"

definition times_half :: "int \<Rightarrow> py_exception + pyfloat" where
  "times_half n =
     (case int_to_float n of Inl e \<Rightarrow> Inl e | Inr a \<Rightarrow> Inr (Finite (a / 2)))"


subsection \<open>Per-frame update\<close>

definition update_state_machine :: "player \<Rightarrow> player" where
  "update_state_machine p =
     (if current_state p \<in> {ATTACK_LIGHT_1, ATTACK_LIGHT_2, ATTACK_HEAVY, HURT} then
        (if is_finished (animations p) then enter_state IDLE p else p)
      else if current_state p = DEATH then
        (if is_finished (animations p) then p\<lparr>removed := True\<rparr> else p)
      else if current_state p = BLOCK then p
      else
        (let desired_state =
           (if move_direction p \<noteq> 0 then (if is_sprinting p then RUN else WALK) else IDLE)
         in enter_state desired_state p))"

definition handle_jump :: "constants \<Rightarrow> player \<Rightarrow> player" where
  "handle_jump c p =
     (if jump_requested p \<and> on_ground p \<and> \<not> is_blocking p
      then p\<lparr>velocity := (fst (velocity p), JUMP_SPEED c * 60),
             on_ground := False, jump_requested := False\<rparr>
      else p)"

definition apply_gravity :: "constants \<Rightarrow> player \<Rightarrow> player" where
  "apply_gravity c p =
     (if \<not> on_ground p
      then p\<lparr>acceleration := (fst (acceleration p), GRAVITY c * 60 * 60)\<rparr>
      else p\<lparr>acceleration := (fst (acceleration p), 0), velocity := (fst (velocity p), 0)\<rparr>)"

definition horizontal_movement :: "constants \<Rightarrow> player \<Rightarrow> player" where
  "horizontal_movement c p =
     (let speed = BASE_MOVEMENT_SPEED c * (if is_sprinting p then SPRINT_MULTIPLIER c else 1)
      in p\<lparr>velocity := (of_int (move_direction p) * speed * 60, snd (velocity p)),
            acceleration := (0, snd (acceleration p))\<rparr>)"

definition update_facing :: "player \<Rightarrow> player" where
  "update_facing p =
     (if move_direction p < 0 then p\<lparr>facing_left := True\<rparr>
      else if move_direction p > 0 then p\<lparr>facing_left := False\<rparr>
      else p)"

definition update_animation :: "rat \<Rightarrow> player \<Rightarrow> player" where
  "update_animation delta_time p =
     (let an = advance_active delta_time (animations p)
      in p\<lparr>animations := an, image := get_current_frame (facing_left p) an\<rparr>)"

text \<open>\<open>Player._update_character\<close>: the five blocks of its body, in order.\<close>

definition update_character :: "constants \<Rightarrow> rat \<Rightarrow> player \<Rightarrow> player" where
  "update_character c delta_time p =
     update_animation delta_time
       (update_state_machine
         (update_facing
           (horizontal_movement c
             (apply_gravity c
               (handle_jump c p)))))"

definition update_invulnerability :: "rat \<Rightarrow> player \<Rightarrow> player" where
  "update_invulnerability delta_time p =
     (if invulnerable p \<and> invulnerable_timer p > 0 then
        (let p1 = p\<lparr>invulnerable_timer := invulnerable_timer p - delta_time\<rparr> in
         if invulnerable_timer p1 \<le> 0
         then p1\<lparr>invulnerable := False, invulnerable_timer := 0\<rparr>
         else p1)
      else p)"

definition update :: "constants \<Rightarrow> rat \<Rightarrow> player \<Rightarrow> player" where
  "update c delta_time p = update_character c delta_time (update_invulnerability delta_time p)"

text \<open>Example configuration and animation table, used to evaluate concrete runs.\<close>

definition example_constants :: constants where
  "example_constants =
     \<lparr>MAX_HEALTH = 100, MAX_MANA = 100,
      GRAVITY = 1 / 2, JUMP_SPEED = -12, MAX_FALL_SPEED = 15,
      BASE_MOVEMENT_SPEED = 5, SPRINT_MULTIPLIER = 3 / 2,
      DOUBLE_CLICK_THRESHOLD_MS = 400, INVULNERABILITY_DURATION = 1\<rparr>"

definition example_animations :: "PlayerState \<Rightarrow> animation" where
  "example_animations s =
     \<lparr>frame_count = 4, fps = 10, loop = (s \<in> {IDLE, WALK, RUN, BLOCK}),
      frame_index = 0, elapsed = 0\<rparr>"

definition fresh_player :: player where
  "fresh_player = new_player example_constants example_animations 0 0 100"

subsection \<open>Input events and example players\<close>

text \<open>
  What reaches a player between and at frames: an input action, a mouse click (with the
  random draw its handler consumes), a per-frame update, and the game scene's physics
  setting the grounded flag (the scene is not among the sources; it owns collision and
  position integration).
\<close>

datatype event = Action PlayerAction bool | Click nat int int | Update rat | Landed bool

fun apply_event :: "constants \<Rightarrow> event \<Rightarrow> player \<Rightarrow> player" where
  "apply_event c (Action a pressed) p = handle_action a pressed p"
| "apply_event c (Click rnd button t) p = handle_mouse_click c rnd button t p"
| "apply_event c (Update dt) p = update c dt p"
| "apply_event c (Landed b) p = p\<lparr>on_ground := b\<rparr>"

text \<open>An update performs a jump when it takes a grounded player off the ground.\<close>

fun performs_jump :: "constants \<Rightarrow> event \<Rightarrow> player \<Rightarrow> bool" where
  "performs_jump c (Update dt) p = (on_ground p \<and> \<not> on_ground (update c dt p))"
| "performs_jump c e p = False"

fun count_jumps :: "constants \<Rightarrow> player \<Rightarrow> event list \<Rightarrow> nat" where
  "count_jumps c p [] = 0"
| "count_jumps c p (e # es) =
     (if performs_jump c e p then 1 else 0) + count_jumps c (apply_event c e p) es"

definition attacking_player :: player where
  "attacking_player = handle_mouse_click example_constants 0 1 1000 fresh_player"

definition finished_player :: player where
  "finished_player = update example_constants 1 attacking_player"

definition blocking_player :: player where
  "blocking_player = handle_action BLOCK_ACTION True fresh_player"



definition grounded_player :: player where
  "grounded_player = fresh_player\<lparr>on_ground := True\<rparr>"

definition jumping_events :: "event list" where
  "jumping_events = [Update (1 / 60), Landed True, Action JUMP False, Update (1 / 60)]"

section \<open>Scene manager (src/controllers/scene_manager.py)\<close>

subsection \<open>Python built-ins\<close>

text \<open>
  \<open>str.isspace\<close> on the code points below 256, which is what a \<open>char\<close> holds:
  tab to carriage return, the four separators 28 to 31, space, next line (133) and
  no-break space (160).
\<close>

definition isspace :: "char \<Rightarrow> bool" where
  "isspace ch = ((of_char ch :: nat) \<in> {9, 10, 11, 12, 13, 28, 29, 30, 31, 32, 133, 160})"

definition py_strip :: "string \<Rightarrow> string" where
  "py_strip s = rev (dropWhile isspace (rev (dropWhile isspace s)))"

text \<open>\<open>str.split()\<close> without arguments: the maximal runs of non-whitespace, in order.\<close>

fun split_from :: "string \<Rightarrow> string \<Rightarrow> string list" where
  "split_from word [] = (if word = [] then [] else [word])"
| "split_from word (ch # s) =
     (if isspace ch then (if word = [] then split_from [] s else word # split_from [] s)
      else split_from (word @ [ch]) s)"

definition py_split :: "string \<Rightarrow> string list" where
  "py_split s = split_from [] s"

text \<open>\<open>xs[i]\<close> for a non-negative index: out of range raises \<open>IndexError\<close>.\<close>

definition py_index :: "'a list \<Rightarrow> nat \<Rightarrow> py_exception + 'a" where
  "py_index xs i = (if i < length xs then Inr (xs ! i) else Inl IndexError)"

text \<open>
  The built-ins \<open>float\<close> and \<open>int\<close> on a string are parameters of the loader: a
  function from the text to the value, \<open>None\<close> where Python raises \<open>ValueError\<close>.
  The type of float values is left open. The two parsers below read plain decimal literals
  (an optional sign, digits, for the float an optional fraction); they serve to evaluate
  the loader on concrete files made of such literals, where they agree with Python.
\<close>

definition digit_value :: "char \<Rightarrow> nat option" where
  "digit_value ch =
     (let n = (of_char ch :: nat) in if 48 \<le> n \<and> n \<le> 57 then Some (n - 48) else None)"

fun digits_value :: "nat \<Rightarrow> string \<Rightarrow> nat option" where
  "digits_value acc [] = Some acc"
| "digits_value acc (ch # s) =
     (case digit_value ch of None \<Rightarrow> None | Some d \<Rightarrow> digits_value (10 * acc + d) s)"

definition unsigned_int_literal :: "string \<Rightarrow> nat option" where
  "unsigned_int_literal s = (if s = [] then None else digits_value 0 s)"

definition unsigned_decimal_literal :: "string \<Rightarrow> rat option" where
  "unsigned_decimal_literal s =
     (let whole = takeWhile (\<lambda>ch. ch \<noteq> CHR ''.'') s;
          rest = dropWhile (\<lambda>ch. ch \<noteq> CHR ''.'') s;
          frac = (case rest of [] \<Rightarrow> [] | _ # f \<Rightarrow> f)
      in if whole = [] \<and> frac = [] then None
         else (case (digits_value 0 whole, digits_value 0 frac) of
                 (Some w, Some f) \<Rightarrow> Some (of_nat w + of_nat f / 10 ^ length frac)
               | _ \<Rightarrow> None))"

definition with_sign :: "(string \<Rightarrow> 'a option) \<Rightarrow> string \<Rightarrow> ('a::uminus) option" where
  "with_sign parse s =
     (case s of
        [] \<Rightarrow> None
      | ch # r \<Rightarrow>
          if ch = CHR ''-'' then map_option uminus (parse r)
          else if ch = CHR ''+'' then parse r
          else parse s)"

definition int_literal :: "string \<Rightarrow> int option" where
  "int_literal = with_sign (\<lambda>s. map_option int (unsigned_int_literal s))"

definition decimal_literal :: "string \<Rightarrow> rat option" where
  "decimal_literal = with_sign unsigned_decimal_literal"

subsection \<open>Scenes\<close>

text \<open>
  The scene classes live in \<open>src.controllers.scenes\<close>, which is not among the sources.
  A scene object is represented by its class and the arguments its constructor received
  (besides the shared configuration). A constructor may raise; \<open>ctor_error\<close>, a
  parameter of the manager's operations, gives the exception's text when it does.
\<close>

datatype scene_class = MenuScene | SettingsScene | GameScene | DialogScene

type_synonym 'f saved = "('f \<times> 'f \<times> int) option"

datatype 'f ctor_args = NoArgs | GameArgs string "'f saved" | DialogArgs string string

datatype 'f scene = Scene scene_class "'f ctor_args"

type_synonym 'f ctor_error = "scene_class \<Rightarrow> 'f ctor_args \<Rightarrow> string option"

record 'f kwargs =
  level_id :: "string option"
  saved_data_arg :: "'f saved"
  dialog_id :: "string option"
  next_scene :: "string option"

definition no_kwargs :: "'f kwargs" where
  "no_kwargs = \<lparr>level_id = None, saved_data_arg = None, dialog_id = None, next_scene = None\<rparr>"

subsection \<open>The manager\<close>

record 'f manager =
  scene_cache :: "string \<rightharpoonup> 'f scene option"
  current_level :: string
  saved_data :: "'f saved"

definition new_manager :: "'f manager" where
  "new_manager = \<lparr>scene_cache = Map.empty, current_level = ''tutorial'', saved_data = None\<rparr>"

definition scene_classes :: "string \<rightharpoonup> scene_class" where
  "scene_classes =
     [''menu'' \<mapsto> MenuScene, ''settings'' \<mapsto> SettingsScene,
      ''game'' \<mapsto> GameScene, ''dialog'' \<mapsto> DialogScene]"

text \<open>
  The save file as the loader finds it: absent (\<open>exists()\<close> is false), present but
  failing to open or read (an \<open>IOError\<close>), present but failing to decode (a
  \<open>UnicodeDecodeError\<close>, which is a \<open>ValueError\<close>), or present with a text.
\<close>

datatype save_file = NoFile | Unreadable | Undecodable | Text string

definition create_scene ::
  "'f ctor_error \<Rightarrow> 'f manager \<Rightarrow> string \<Rightarrow> 'f kwargs \<Rightarrow> py_exception + 'f scene option" where
  "create_scene ctor_error st scene_id kw =
     (case scene_classes scene_id of
        None \<Rightarrow> Inr None
      | Some scene_class \<Rightarrow>
          (let args =
             (if scene_id = ''game'' then
                GameArgs (case level_id kw of None \<Rightarrow> current_level st | Some l \<Rightarrow> l)
                         (saved_data_arg kw)
              else if scene_id = ''dialog'' then
                DialogArgs (case dialog_id kw of None \<Rightarrow> ''test'' | Some d \<Rightarrow> d)
                           (case next_scene kw of None \<Rightarrow> ''menu'' | Some n \<Rightarrow> n)
              else NoArgs)
           in case ctor_error scene_class args of
                Some e \<Rightarrow> Inl (SceneError (''Failed to create scene '' @ scene_id @ '': '' @ e))
              | None \<Rightarrow> Inr (Some (Scene scene_class args))))"

text \<open>Sequencing of steps that may raise: the first exception ends the sequence.\<close>

definition and_then :: "py_exception + 'a \<Rightarrow> ('a \<Rightarrow> py_exception + 'b) \<Rightarrow> py_exception + 'b" where
  "and_then r f = (case r of Inl e \<Rightarrow> Inl e | Inr x \<Rightarrow> f x)"

definition or_value_error :: "'a option \<Rightarrow> py_exception + 'a" where
  "or_value_error r = (case r of None \<Rightarrow> Inl ValueError | Some x \<Rightarrow> Inr x)"

definition read_text :: "save_file \<Rightarrow> py_exception + string" where
  "read_text file =
     (case file of Unreadable \<Rightarrow> Inl IOError | Undecodable \<Rightarrow> Inl ValueError
      | Text s \<Rightarrow> Inr s | NoFile \<Rightarrow> Inl IOError)"

text \<open>The body of the \<open>try\<close> block of \<open>_load_saved_game\<close>.\<close>

definition load_saved_game_body ::
  "(string \<Rightarrow> 'f option) \<Rightarrow> (string \<Rightarrow> int option) \<Rightarrow> save_file \<Rightarrow> 'f manager \<Rightarrow>
     py_exception + 'f manager" where
  "load_saved_game_body float_of int_of file st =
     (if file \<noteq> NoFile then
        and_then (read_text file) (\<lambda>s.
          let data = py_split (py_strip s) in
          if length data \<ge> 3 then
            and_then (py_index data 0) (\<lambda>d0.
            and_then (or_value_error (float_of d0)) (\<lambda>x.
            and_then (py_index data 1) (\<lambda>d1.
            and_then (or_value_error (float_of d1)) (\<lambda>y.
            and_then (py_index data 2) (\<lambda>d2.
            and_then (or_value_error (int_of d2)) (\<lambda>h.
              let st1 = st\<lparr>saved_data := Some (x, y, h)\<rparr> in
              if length data \<ge> 4 then
                and_then (py_index data 3) (\<lambda>d3. Inr (st1\<lparr>current_level := d3\<rparr>))
              else Inr st1))))))
          else Inr st)
      else Inr st)"

text \<open>
  \<open>_load_saved_game\<close>: the handler catches \<open>IOError\<close> and \<open>ValueError\<close> and clears the
  saved data; any other exception leaves the method.
\<close>

definition load_saved_game ::
  "(string \<Rightarrow> 'f option) \<Rightarrow> (string \<Rightarrow> int option) \<Rightarrow> save_file \<Rightarrow> 'f manager \<Rightarrow>
     py_exception + 'f manager" where
  "load_saved_game float_of int_of file st =
     (case load_saved_game_body float_of int_of file st of
        Inr st' \<Rightarrow> Inr st'
      | Inl e \<Rightarrow> if e = IOError \<or> e = ValueError then Inr (st\<lparr>saved_data := None\<rparr>) else Inl e)"

definition get_scene ::
  "'f ctor_error \<Rightarrow> (string \<Rightarrow> 'f option) \<Rightarrow> (string \<Rightarrow> int option) \<Rightarrow> save_file \<Rightarrow>
     'f manager \<Rightarrow> string \<Rightarrow> py_exception + ('f scene option \<times> 'f manager)" where
  "get_scene ctor_error float_of int_of file st scene_id =
     (if scene_id = ''new_game'' then
        (let st1 = st\<lparr>saved_data := None, current_level := ''tutorial''\<rparr> in
         case create_scene ctor_error st1 ''dialog''
                (no_kwargs\<lparr>dialog_id := Some ''introduction'', next_scene := Some ''game''\<rparr>) of
           Inl e \<Rightarrow> Inl e | Inr sc \<Rightarrow> Inr (sc, st1))
      else if scene_id = ''continue'' then
        (case load_saved_game float_of int_of file st of
           Inl e \<Rightarrow> Inl e
         | Inr st1 \<Rightarrow>
             (case create_scene ctor_error st1 ''game''
                     (no_kwargs\<lparr>level_id := Some (current_level st1),
                                saved_data_arg := saved_data st1\<rparr>) of
                Inl e \<Rightarrow> Inl e | Inr sc \<Rightarrow> Inr (sc, st1)))
      else if scene_id = ''game'' then
        (case create_scene ctor_error st ''game''
                (no_kwargs\<lparr>level_id := Some (current_level st),
                           saved_data_arg := saved_data st\<rparr>) of
           Inl e \<Rightarrow> Inl e | Inr sc \<Rightarrow> Inr (sc, st))
      else if scene_id \<in> set [''menu'', ''settings''] then
        (case scene_cache st scene_id of
           Some sc \<Rightarrow> Inr (sc, st)
         | None \<Rightarrow>
             (case create_scene ctor_error st scene_id no_kwargs of
                Inl e \<Rightarrow> Inl e
              | Inr sc \<Rightarrow> Inr (sc, st\<lparr>scene_cache := (scene_cache st)(scene_id \<mapsto> sc)\<rparr>)))
      else
        (case create_scene ctor_error st scene_id no_kwargs of
           Inl e \<Rightarrow> Inl e | Inr sc \<Rightarrow> Inr (sc, st)))"

text \<open>
  \<open>_handle_transition\<close>: an empty or absent token ends the loop; a token of the table
  maps to its entry (\<open>exit\<close> to nothing); any other token is passed through.
\<close>

definition transition_map :: "string \<rightharpoonup> string option" where
  "transition_map =
     [''exit'' \<mapsto> None, ''menu'' \<mapsto> Some ''menu'', ''settings'' \<mapsto> Some ''settings'',
      ''back'' \<mapsto> Some ''menu'', ''new_game'' \<mapsto> Some ''new_game'',
      ''continue'' \<mapsto> Some ''continue'', ''game'' \<mapsto> Some ''game'',
      ''game_over'' \<mapsto> Some ''menu'', ''level_complete'' \<mapsto> Some ''menu'']"

definition handle_transition :: "string \<Rightarrow> string option \<Rightarrow> string option" where
  "handle_transition from_scene to_scene =
     (case to_scene of
        None \<Rightarrow> None
      | Some t \<Rightarrow>
          if t = [] then None
          else (case transition_map t of None \<Rightarrow> Some t | Some target \<Rightarrow> target))"

definition cleanup :: "'f manager \<Rightarrow> 'f manager" where
  "cleanup st = st\<lparr>scene_cache := Map.empty\<rparr>"

text \<open>
  \<open>run\<close>. A scene's \<open>run()\<close> is outside the manager: each entry of \<open>returns\<close> is what
  the next scene to run returns, together with the save file it leaves behind. The loop
  ends with the cleaned-up manager, is left by an exception, or, when \<open>returns\<close> is
  used up, is still inside the \<open>run()\<close> of the scene it resolved last.
\<close>

datatype 'f outcome = Finished "'f manager" | Running string "'f scene" "'f manager"

fun run_loop ::
  "'f ctor_error \<Rightarrow> (string \<Rightarrow> 'f option) \<Rightarrow> (string \<Rightarrow> int option) \<Rightarrow> 'f manager \<Rightarrow> save_file \<Rightarrow>
     string option \<Rightarrow> (string option \<times> save_file) list \<Rightarrow> py_exception + 'f outcome" where
  "run_loop ctor_error float_of int_of st file None returns = Inr (Finished (cleanup st))"
| "run_loop ctor_error float_of int_of st file (Some current_scene_id) returns =
     (if current_scene_id = [] \<or> current_scene_id = ''exit'' then Inr (Finished (cleanup st))
      else
        (case get_scene ctor_error float_of int_of file st current_scene_id of
           Inl e \<Rightarrow> Inl e
         | Inr (None, st1) \<Rightarrow> Inl (SceneError (''Unknown scene: '' @ current_scene_id))
         | Inr (Some scene, st1) \<Rightarrow>
             (case returns of
                [] \<Rightarrow> Inr (Running current_scene_id scene st1)
              | (next_scene_id, file1) # rest \<Rightarrow>
                  run_loop ctor_error float_of int_of st1 file1
                    (handle_transition current_scene_id next_scene_id) rest)))"

definition run ::
  "'f ctor_error \<Rightarrow> (string \<Rightarrow> 'f option) \<Rightarrow> (string \<Rightarrow> int option) \<Rightarrow> 'f manager \<Rightarrow> save_file \<Rightarrow>
     (string option \<times> save_file) list \<Rightarrow> py_exception + 'f outcome" where
  "run ctor_error float_of int_of st file returns =
     run_loop ctor_error float_of int_of st file (Some ''menu'') returns"


subsection \<open>Example managers\<close>

definition no_ctor_error :: "rat ctor_error" where
  "no_ctor_error cls args = None"

text \<open>
  A manager that holds a loaded save, and the same manager after \<open>new_game\<close>.
\<close>

definition held_manager :: "rat manager" where
  "held_manager = new_manager\<lparr>current_level := ''cave'', saved_data := Some (25 / 2, 40, 80)\<rparr>"

definition cleared_manager :: "rat manager" where
  "cleared_manager = held_manager\<lparr>saved_data := None, current_level := ''tutorial''\<rparr>"

definition menu_manager :: "rat manager" where
  "menu_manager =
     new_manager\<lparr>scene_cache := [''menu'' \<mapsto> Some (Scene MenuScene NoArgs)]\<rparr>"

definition loaded_manager :: "rat manager" where
  "loaded_manager = new_manager\<lparr>saved_data := Some (25 / 2, 40, 80)\<rparr>"

section \<open>Properties of the player\<close>

subsection \<open>Which fields each step touches\<close>

lemma current_state_enter_state [simp]: "current_state (enter_state s p) = s"
  by (simp add: enter_state_def)

lemma enter_state_other [simp]:
  "position (enter_state s p) = position p"
  "velocity (enter_state s p) = velocity p"
  "on_ground (enter_state s p) = on_ground p"
  "jump_requested (enter_state s p) = jump_requested p"
  "is_blocking (enter_state s p) = is_blocking p"
  "last_right_click_time (enter_state s p) = last_right_click_time p"
  "health (enter_state s p) = health p"
  by (simp_all add: enter_state_def)

lemma update_state_machine_other [simp]:
  "position (update_state_machine p) = position p"
  "velocity (update_state_machine p) = velocity p"
  "on_ground (update_state_machine p) = on_ground p"
  "jump_requested (update_state_machine p) = jump_requested p"
  "is_blocking (update_state_machine p) = is_blocking p"
  by (simp_all add: update_state_machine_def Let_def)

lemma before_state_machine [simp]:
  "current_state (update_facing (horizontal_movement c (apply_gravity c (handle_jump c
      (update_invulnerability dt p))))) = current_state p"
  "animations (update_facing (horizontal_movement c (apply_gravity c (handle_jump c
      (update_invulnerability dt p))))) = animations p"
  "move_direction (update_facing (horizontal_movement c (apply_gravity c (handle_jump c
      (update_invulnerability dt p))))) = move_direction p"
  "is_sprinting (update_facing (horizontal_movement c (apply_gravity c (handle_jump c
      (update_invulnerability dt p))))) = is_sprinting p"
  by (simp_all add: update_facing_def horizontal_movement_def apply_gravity_def
      handle_jump_def update_invulnerability_def Let_def)

lemma update_current_state:
  "current_state (update c dt p) = current_state (update_state_machine p)"
  unfolding update_def update_character_def update_animation_def Let_def
  by (simp add: update_state_machine_def Let_def)

lemma update_jump_fields:
  "on_ground (update c dt p) = (on_ground p \<and> \<not> (jump_requested p \<and> \<not> is_blocking p))"
  "jump_requested (update c dt p) = (jump_requested p \<and> \<not> (on_ground p \<and> \<not> is_blocking p))"
  "jump_requested p \<and> on_ground p \<and> \<not> is_blocking p \<Longrightarrow>
     snd (velocity (update c dt p)) = JUMP_SPEED c * 60"
  by (auto simp add: update_def update_character_def update_animation_def update_facing_def
      horizontal_movement_def apply_gravity_def handle_jump_def update_invulnerability_def Let_def)

subsection \<open>The example players\<close>

lemma fresh_fields:
  "last_right_click_time fresh_player = 0" "current_state fresh_player = IDLE"
  "is_blocking fresh_player = False"
  by (simp_all add: fresh_player_def new_player_def Let_def)

lemma attacking_fields:
  "current_state attacking_player = ATTACK_LIGHT_1"
  "is_finished (animations attacking_player) = False"
  by (simp_all add: attacking_player_def handle_mouse_click_def can_attack_def fresh_player_def
      new_player_def Let_def enter_state_def set_state_def random_choice_def is_finished_def
      animation_is_finished_def reset_def example_animations_def)

lemma finished_fields:
  "current_state finished_player = ATTACK_LIGHT_1"
  "is_finished (animations finished_player) = True"
   apply (simp add: finished_player_def update_current_state update_state_machine_def
      attacking_fields)
  apply (simp add: finished_player_def update_def update_character_def update_animation_def
      Let_def update_state_machine_def attacking_fields)
  apply (simp_all add: attacking_player_def handle_mouse_click_def can_attack_def
      fresh_player_def new_player_def Let_def enter_state_def set_state_def random_choice_def
      is_finished_def animation_is_finished_def reset_def example_animations_def
      advance_active_def advance_def frame_duration_def)
  done

lemma blocking_fields:
  "is_blocking blocking_player" "health blocking_player = 100"
  "invulnerable blocking_player = False" "current_state blocking_player = BLOCK"
  by (simp_all add: blocking_player_def fresh_player_def new_player_def Let_def enter_state_def)

lemma grounded_fields:
  "on_ground grounded_player" "\<not> is_blocking grounded_player"
  "\<not> jump_requested grounded_player"
  by (simp_all add: grounded_player_def fresh_player_def new_player_def Let_def)

subsection \<open>Right click: the double-click detector\<close>

text \<open>
  What the right-click branch does with the stored timestamp, for every stored value: a
  click within the threshold of it enters \<open>ATTACK_HEAVY\<close> and stores zero, any other
  click only records its own time.
\<close>

lemma right_click_within_threshold:
  "can_attack p \<Longrightarrow> t - last_right_click_time p \<le> DOUBLE_CLICK_THRESHOLD_MS c \<Longrightarrow>
     current_state (handle_mouse_click c rnd 3 t p) = ATTACK_HEAVY \<and>
     last_right_click_time (handle_mouse_click c rnd 3 t p) = 0"
  by (simp add: handle_mouse_click_def)

lemma right_click_beyond_threshold:
  "can_attack p \<Longrightarrow> \<not> t - last_right_click_time p \<le> DOUBLE_CLICK_THRESHOLD_MS c \<Longrightarrow>
     handle_mouse_click c rnd 3 t p = p\<lparr>last_right_click_time := t\<rparr>"
  by (simp add: handle_mouse_click_def)

text \<open>
  C1. The stored timestamp starts at zero, which the comparison cannot tell from a click at
  time zero. A newly created player, idle, with a 400 ms threshold, receives its first and
  only right click at 100 ms: the click is taken for the second of a pair and the player
  enters \<open>ATTACK_HEAVY\<close>. The same first click heads any pair of clicks spaced beyond the
  threshold (here 100 ms and 600 ms), so such a pair fires one heavy attack, not zero.
\<close>

theorem first_right_click_fires_heavy_attack:
  "last_right_click_time fresh_player = 0 \<and> current_state fresh_player = IDLE \<and>
   DOUBLE_CLICK_THRESHOLD_MS example_constants = 400 \<and>
   current_state (handle_mouse_click example_constants 0 3 100 fresh_player) = ATTACK_HEAVY \<and>
   current_state (handle_mouse_click example_constants 0 3 600
     (handle_mouse_click example_constants 0 3 100 fresh_player)) = ATTACK_HEAVY"
  by (simp add: fresh_fields handle_mouse_click_def can_attack_def example_constants_def)

subsection \<open>The blocking flag\<close>

lemma block_action_sets_flag:
  "is_blocking (handle_action BLOCK_ACTION pressed p) = pressed"
  by (simp add: Let_def)

lemma attack_actions_set_flag:
  "is_blocking (handle_action ATTACK_LIGHT pressed p) = pressed"
  "is_blocking (handle_action ATTACK_HEAVY_ACTION pressed p) = pressed"
  by simp_all

text \<open>
  C3. The branches of \<open>handle_action\<close> for \<open>ATTACK_LIGHT\<close> and \<open>ATTACK_HEAVY\<close> assign
  the blocking flag, exactly as the \<open>BLOCK\<close> branch does. A newly created player is not
  blocking; after \<open>handle_action(ATTACK_LIGHT, True)\<close>, or the same with
  \<open>ATTACK_HEAVY\<close>, it is, although its state is still \<open>IDLE\<close>.
\<close>

theorem attack_action_changes_blocking_flag:
  "\<not> is_blocking fresh_player \<and>
   is_blocking (handle_action ATTACK_LIGHT True fresh_player) \<and>
   is_blocking (handle_action ATTACK_HEAVY_ACTION True fresh_player) \<and>
   current_state (handle_action ATTACK_LIGHT True fresh_player) = IDLE"
  by (simp add: fresh_fields)

subsection \<open>The per-frame update\<close>

text \<open>
  C4. For every delta time, configuration and player, \<open>Player.update\<close> leaves the position
  as it was: no step of it integrates velocity into position.
\<close>

theorem update_leaves_position_unchanged:
  "position (update c delta_time p) = position p"
  by (simp add: update_def update_character_def update_animation_def update_facing_def
      horizontal_movement_def apply_gravity_def handle_jump_def update_invulnerability_def
      Let_def)

text \<open>
  C5. The state machine resolves by priority. In an attack state or \<open>HURT\<close> with the
  active animation unfinished, \<open>_update_state_machine\<close> changes nothing and the update
  keeps the state; with the animation finished, both end in \<open>IDLE\<close>. In \<open>BLOCK\<close> the
  state machine changes nothing and the update stays in \<open>BLOCK\<close>, whatever the movement
  input is.
\<close>

theorem state_machine_priority:
  "(current_state p \<in> {ATTACK_LIGHT_1, ATTACK_LIGHT_2, ATTACK_HEAVY, HURT} \<and>
      \<not> is_finished (animations p) \<longrightarrow>
        update_state_machine p = p \<and> current_state (update c dt p) = current_state p) \<and>
   (current_state p \<in> {ATTACK_LIGHT_1, ATTACK_LIGHT_2, ATTACK_HEAVY, HURT} \<and>
      is_finished (animations p) \<longrightarrow>
        current_state (update_state_machine p) = IDLE \<and> current_state (update c dt p) = IDLE) \<and>
   (current_state p = BLOCK \<longrightarrow>
        update_state_machine p = p \<and> current_state (update c dt p) = BLOCK)"
  by (auto simp add: update_current_state update_state_machine_def)

theorem state_machine_priority_witness:
  "current_state attacking_player = ATTACK_LIGHT_1 \<and>
   \<not> is_finished (animations attacking_player) \<and>
   current_state (update example_constants (1 / 60) attacking_player) = ATTACK_LIGHT_1 \<and>
   current_state finished_player = ATTACK_LIGHT_1 \<and>
   is_finished (animations finished_player) \<and>
   current_state (update example_constants (1 / 60) finished_player) = IDLE \<and>
   current_state (handle_action MOVE_RIGHT True blocking_player) = BLOCK \<and>
   move_direction (handle_action MOVE_RIGHT True blocking_player) = 1 \<and>
   current_state (update example_constants (1 / 60)
     (handle_action MOVE_RIGHT True blocking_player)) = BLOCK"
proof -
  have b: "current_state (handle_action MOVE_RIGHT True blocking_player) = BLOCK"
    "move_direction (handle_action MOVE_RIGHT True blocking_player) = 1"
    by (simp_all add: blocking_fields)
  from state_machine_priority [of attacking_player example_constants "1 / 60"]
    state_machine_priority [of finished_player example_constants "1 / 60"]
    state_machine_priority [of "handle_action MOVE_RIGHT True blocking_player"
      example_constants "1 / 60"]
    attacking_fields finished_fields b
  show ?thesis by simp
qed

subsection \<open>Mouse clicks\<close>

lemma random_choice_light:
  "random_choice [ATTACK_LIGHT_1, ATTACK_LIGHT_2] rnd \<in> {ATTACK_LIGHT_1, ATTACK_LIGHT_2}"
proof -
  have "random_choice [ATTACK_LIGHT_1, ATTACK_LIGHT_2] rnd
      \<in> set [ATTACK_LIGHT_1, ATTACK_LIGHT_2]"
    unfolding random_choice_def by (rule nth_mem) simp
  then show ?thesis by simp
qed

lemma click_ignored_while_attacking:
  "current_state q \<in> {ATTACK_LIGHT_1, ATTACK_LIGHT_2, ATTACK_HEAVY} \<Longrightarrow>
     handle_mouse_click c rnd button t q = q"
  by (auto simp add: handle_mouse_click_def can_attack_def)

lemma attack_state_kept_while_unfinished:
  "current_state p \<in> {ATTACK_LIGHT_1, ATTACK_LIGHT_2, ATTACK_HEAVY} \<Longrightarrow>
   \<not> is_finished (animations p) \<Longrightarrow> current_state (update c dt p) = current_state p"
  by (auto simp add: update_current_state update_state_machine_def)

text \<open>
  C6. In \<open>IDLE\<close>, \<open>WALK\<close> or \<open>RUN\<close> a left click (button 1) puts the player in
  \<open>ATTACK_LIGHT_1\<close> or \<open>ATTACK_LIGHT_2\<close>, whatever the random draw. In an attack state
  a click of any button changes nothing; and while the active animation is unfinished an
  update keeps the attack state, so a click after the update changes nothing either.
\<close>

theorem left_click_light_attack:
  "(current_state p \<in> {IDLE, WALK, RUN} \<longrightarrow>
      current_state (handle_mouse_click c rnd 1 t p) \<in> {ATTACK_LIGHT_1, ATTACK_LIGHT_2}) \<and>
   (current_state p \<in> {ATTACK_LIGHT_1, ATTACK_LIGHT_2, ATTACK_HEAVY} \<longrightarrow>
      handle_mouse_click c rnd button t p = p) \<and>
   (current_state p \<in> {ATTACK_LIGHT_1, ATTACK_LIGHT_2, ATTACK_HEAVY} \<and>
      \<not> is_finished (animations p) \<longrightarrow>
      current_state (update c dt p) = current_state p \<and>
      handle_mouse_click c rnd button t (update c dt p) = update c dt p)"
proof (intro conjI impI)
  assume "current_state p \<in> {IDLE, WALK, RUN}"
  then have "can_attack p" by (simp add: can_attack_def)
  then show "current_state (handle_mouse_click c rnd 1 t p) \<in> {ATTACK_LIGHT_1, ATTACK_LIGHT_2}"
    using random_choice_light by (simp add: handle_mouse_click_def)
next
  assume "current_state p \<in> {ATTACK_LIGHT_1, ATTACK_LIGHT_2, ATTACK_HEAVY}"
  then show "handle_mouse_click c rnd button t p = p" by (rule click_ignored_while_attacking)
next
  assume "current_state p \<in> {ATTACK_LIGHT_1, ATTACK_LIGHT_2, ATTACK_HEAVY} \<and>
      \<not> is_finished (animations p)"
  then show "current_state (update c dt p) = current_state p"
    using attack_state_kept_while_unfinished by blast
next
  assume a: "current_state p \<in> {ATTACK_LIGHT_1, ATTACK_LIGHT_2, ATTACK_HEAVY} \<and>
      \<not> is_finished (animations p)"
  then have "current_state (update c dt p) = current_state p"
    using attack_state_kept_while_unfinished by blast
  with a have "current_state (update c dt p) \<in> {ATTACK_LIGHT_1, ATTACK_LIGHT_2, ATTACK_HEAVY}"
    by simp
  then show "handle_mouse_click c rnd button t (update c dt p) = update c dt p"
    by (rule click_ignored_while_attacking)
qed

theorem left_click_light_attack_witness:
  "current_state fresh_player = IDLE \<and>
   current_state (handle_mouse_click example_constants 0 1 1000 fresh_player)
     \<in> {ATTACK_LIGHT_1, ATTACK_LIGHT_2} \<and>
   current_state attacking_player = ATTACK_LIGHT_1 \<and>
   \<not> is_finished (animations attacking_player) \<and>
   handle_mouse_click example_constants 1 1 1200 attacking_player = attacking_player \<and>
   handle_mouse_click example_constants 1 3 1200 (update example_constants (1 / 60)
     attacking_player) = update example_constants (1 / 60) attacking_player"
  using left_click_light_attack [of fresh_player example_constants 0 1000 1 "1 / 60"]
    left_click_light_attack [of attacking_player example_constants 1 1200 1 "1 / 60"]
    left_click_light_attack [of attacking_player example_constants 1 1200 3 "1 / 60"]
    fresh_fields attacking_fields
  by simp

subsection \<open>Damage while blocking\<close>

declare bit_length.simps [simp del]

lemma max_one_truncate: "max 1 (truncate_towards_zero x) = max 1 \<lfloor>x\<rfloor>"
proof (cases "x \<ge> 0")
  case True
  then show ?thesis by (simp add: truncate_towards_zero_def)
next
  case False
  then have "\<lceil>x\<rceil> \<le> 0" and "\<lfloor>x\<rfloor> \<le> 0" by simp_all
  with False show ?thesis by (simp add: truncate_towards_zero_def)
qed

lemma reduced_amount_finite:
  "reduced amount = Inr (Finite x) \<Longrightarrow>
     reduced_amount reduced amount = Inr (max 1 \<lfloor>x\<rfloor>)"
  by (simp add: reduced_amount_def py_int_of_float_def max_one_truncate)



lemma bit_length_numeral:
  "bit_length 0 = 0"
  "bit_length (Suc 0) = 1"
  "bit_length 1 = 1"
  "bit_length (numeral (Num.Bit0 m)) = bit_length (numeral m) + 1"
  "bit_length (numeral (Num.Bit1 m)) = bit_length (numeral m) + 1"
proof -
  show "bit_length 0 = 0" by (simp add: bit_length.simps)
  show s: "bit_length (Suc 0) = 1"
    by (simp add: bit_length.simps [of "Suc 0"] bit_length.simps [of 0])
  then show "bit_length 1 = 1" by simp
  have "numeral (Num.Bit0 m) div 2 = (numeral m :: nat)" by simp
  then show "bit_length (numeral (Num.Bit0 m)) = bit_length (numeral m) + 1"
    by (simp add: bit_length.simps [of "numeral (Num.Bit0 m)"])
  have "numeral (Num.Bit1 m) div 2 = (numeral m :: nat)" by simp
  then show "bit_length (numeral (Num.Bit1 m)) = bit_length (numeral m) + 1"
    by (simp add: bit_length.simps [of "numeral (Num.Bit1 m)"])
qed

lemma bit_length_pos: "n \<noteq> 0 \<Longrightarrow> bit_length n = bit_length (n div 2) + 1"
  by (simp add: bit_length.simps [of n])

lemma bit_length_bounds:
  "n \<noteq> 0 \<Longrightarrow> 2 ^ (bit_length n - 1) \<le> n \<and> n < 2 ^ bit_length n"
proof (induction n rule: less_induct)
  case (less n)
  show ?case
  proof (cases "n div 2 = 0")
    case True
    with less.prems have "n = Suc 0" by (simp add: div_eq_0_iff) 
    then show ?thesis by (simp add: bit_length_numeral)
  next
    case False
    with less.prems have "n div 2 < n" by simp
    from less.IH [OF this False]
    have lo: "2 ^ (bit_length (n div 2) - 1) \<le> n div 2"
      and hi: "n div 2 < 2 ^ bit_length (n div 2)" by simp_all
    have pos: "bit_length (n div 2) \<noteq> 0"
      using False by (simp add: bit_length.simps [of "n div 2"])
    then have "(2::nat) ^ bit_length (n div 2) = 2 * 2 ^ (bit_length (n div 2) - 1)"
      by (cases "bit_length (n div 2)") simp_all
    with lo have "2 ^ bit_length (n div 2) \<le> 2 * (n div 2)" by simp
    then have a: "2 ^ bit_length (n div 2) \<le> n" by linarith
    from hi have "2 * (n div 2) + 2 \<le> 2 * 2 ^ bit_length (n div 2)" by simp
    then have b: "n < 2 * 2 ^ bit_length (n div 2)" by linarith
    from a b show ?thesis by (simp add: bit_length_pos [OF less.prems])
  qed
qed

lemma round_half_even_lower: "a div q \<le> round_half_even a q"
  by (simp add: round_half_even_def Let_def)

lemma int_to_float_overflow:
  assumes "2 ^ 1024 \<le> \<bar>n\<bar>"
  shows "int_to_float n = Inl OverflowError"
proof -
  define a where "a = nat \<bar>n\<bar>"
  define k where "k = bit_length a - 53"
  have big: "2 ^ 1024 \<le> a"
  proof -
    have "int (2 ^ 1024) \<le> int a" using assms by (simp add: a_def)
    then show ?thesis by (simp only: of_nat_le_iff)
  qed
  then have "a \<noteq> 0" by auto
  from bit_length_bounds [OF this]
  have lo: "2 ^ (bit_length a - 1) \<le> a" and hi: "a < 2 ^ bit_length a" by simp_all
  from big hi have "(2::nat) ^ 1024 < 2 ^ bit_length a" by (rule le_less_trans)
  then have bl: "1024 < bit_length a" by (simp only: power_strict_increasing_iff one_less_numeral_iff semiring_norm)
  then have k52: "bit_length a - 1 = k + 52" by (simp add: k_def)
  have "(2::nat) ^ 52 * 2 ^ k = 2 ^ (bit_length a - 1)"
    by (simp only: k52 power_add mult.commute)
  with lo have "2 ^ 52 * 2 ^ k \<le> a" by simp
  then have "2 ^ 52 \<le> a div 2 ^ k" by (simp add: less_eq_div_iff_mult_less_eq)
  then have "2 ^ 52 \<le> round_half_even a (2 ^ k)"
    using round_half_even_lower [of a "2 ^ k"] by (rule le_trans)
  then have "2 ^ 52 * 2 ^ k \<le> round_half_even a (2 ^ k) * 2 ^ k" by (rule mult_le_mono1)
  moreover have "(2::nat) ^ 1024 \<le> 2 ^ 52 * 2 ^ k"
  proof -
    have "1024 \<le> 52 + k" using bl k52 by linarith
    then have "(2::nat) ^ 1024 \<le> 2 ^ (52 + k)" by (rule power_increasing) simp
    then show ?thesis by (simp only: power_add)
  qed
  ultimately have r: "2 ^ 1024 \<le> round_half_even a (2 ^ k) * 2 ^ k"
    by (rule order_trans [rotated])
  show ?thesis
    unfolding int_to_float_def Let_def a_def [symmetric] k_def [symmetric]
    by (simp only: r if_True)
qed

lemma int_to_float_exact:
  assumes "\<bar>n\<bar> < 2 ^ 53"
  shows "int_to_float n = Inr (of_int n)"
proof -
  define a where "a = nat \<bar>n\<bar>"
  have small: "a < 2 ^ 53"
  proof -
    have "int a < int (2 ^ 53)" using assms by (simp add: a_def)
    then show ?thesis by (simp only: of_nat_less_iff)
  qed
  have "bit_length a \<le> 53"
  proof (cases "a = 0")
    case True
    then show ?thesis by (simp add: bit_length_numeral)
  next
    case False
    from bit_length_bounds [OF False] have "2 ^ (bit_length a - 1) \<le> a" by simp
    from this small have "(2::nat) ^ (bit_length a - 1) < 2 ^ 53" by (rule le_less_trans)
    then have "bit_length a - 1 < 53"
      by (simp only: power_strict_increasing_iff one_less_numeral_iff semiring_norm)
    then show ?thesis by simp
  qed
  then have q: "bit_length a - 53 = 0" by simp
  have r: "round_half_even a 1 = a" by (simp add: round_half_even_def)
  have "(2::nat) ^ 53 \<le> 2 ^ 1024" by (rule power_increasing) simp_all
  with small have fit: "\<not> 2 ^ 1024 \<le> a" by simp
  have "sgn n * int a = n" by (simp add: a_def sgn_mult_abs)
  with fit show ?thesis
    unfolding int_to_float_def Let_def a_def [symmetric]
    by (simp only: q r power_0 mult_1_right if_False)
qed

text \<open>
  With the factor 0.5, amounts below \<open>2 ^ 53\<close> in magnitude are reduced exactly, and
  amounts from \<open>2 ^ 1024\<close> on raise.
\<close>

lemma reduced_amount_times_half_exact:
  "\<bar>n\<bar> < 2 ^ 53 \<Longrightarrow>
     reduced_amount times_half n = Inr (max 1 \<lfloor>of_int n / 2 :: rat\<rfloor>)"
  using reduced_amount_finite [of times_half n "of_int n / 2"]
  by (simp add: times_half_def int_to_float_exact)

lemma reduced_amount_times_half_overflow:
  "2 ^ 1024 \<le> \<bar>n\<bar> \<Longrightarrow> reduced_amount times_half n = Inl OverflowError"
  by (simp add: reduced_amount_def times_half_def int_to_float_overflow)






subsection \<open>The jump request\<close>

lemma handle_action_jump_requested:
  "jump_requested (handle_action a pressed p) \<Longrightarrow> (a, pressed) \<noteq> (JUMP, True) \<Longrightarrow>
     jump_requested p"
  by (cases a) (auto simp add: Let_def split: if_splits)

lemma click_jump_requested [simp]:
  "jump_requested (handle_mouse_click c rnd button t p) = jump_requested p"
  by (simp add: handle_mouse_click_def)

lemma event_no_new_request:
  "e \<noteq> Action JUMP True \<Longrightarrow> jump_requested (apply_event c e p) \<Longrightarrow> jump_requested p"
  by (cases e) (auto simp add: update_jump_fields dest: handle_action_jump_requested)

lemma performs_jump_iff:
  "performs_jump c e p =
     ((\<exists>dt. e = Update dt) \<and> jump_requested p \<and> on_ground p \<and> \<not> is_blocking p)"
  by (cases e) (auto simp add: update_jump_fields)

lemma performs_jump_clears:
  "performs_jump c e p \<Longrightarrow> \<not> jump_requested (apply_event c e p)"
  by (cases e) (auto simp add: update_jump_fields)

lemma count_jumps_bound:
  "Action JUMP True \<notin> set es \<Longrightarrow> count_jumps c p es \<le> (if jump_requested p then 1 else 0)"
proof (induction es arbitrary: p)
  case Nil
  then show ?case by simp
next
  case (Cons e es)
  then have ne: "e \<noteq> Action JUMP True" and rest: "Action JUMP True \<notin> set es" by auto
  have ih: "count_jumps c (apply_event c e p) es
      \<le> (if jump_requested (apply_event c e p) then 1 else 0)"
    using Cons.IH [OF rest] .
  show ?case
  proof (cases "performs_jump c e p")
    case True
    then have "jump_requested p" by (simp add: performs_jump_iff)
    moreover have "count_jumps c (apply_event c e p) es = 0"
      using ih performs_jump_clears [OF True] by simp
    ultimately show ?thesis using True by simp
  next
    case False
    have "jump_requested (apply_event c e p) \<Longrightarrow> jump_requested p"
      using event_no_new_request [OF ne] .
    then have "(if jump_requested (apply_event c e p) then 1 else 0)
       \<le> (if jump_requested p then 1 else (0::nat))" by auto
    with ih False show ?thesis by simp
  qed
qed

lemma jumping_events_count:
  "count_jumps example_constants (handle_action JUMP True grounded_player) jumping_events = 1"
  by (simp add: jumping_events_def update_jump_fields grounded_fields)

text \<open>
  C8. A \<open>JUMP\<close> action sets the jump request exactly when it is a press and the player is
  on the ground and not blocking (a request already set stays). An update that finds the
  request set with the player grounded and not blocking sets the vertical velocity to the
  jump speed (times 60), clears the grounded flag and clears the request. Over any run of
  events without a further \<open>JUMP\<close> press, at most one update performs a jump if the
  request is set at the start, and none if it is not.
\<close>

theorem jump_request_is_one_shot:
  "jump_requested (handle_action JUMP pressed p) =
     (jump_requested p \<or> pressed \<and> on_ground p \<and> \<not> is_blocking p) \<and>
   (jump_requested p \<and> on_ground p \<and> \<not> is_blocking p \<longrightarrow>
      snd (velocity (update c dt p)) = JUMP_SPEED c * 60 \<and>
      \<not> on_ground (update c dt p) \<and> \<not> jump_requested (update c dt p)) \<and>
   (Action JUMP True \<notin> set es \<longrightarrow>
      count_jumps c p es \<le> (if jump_requested p then 1 else 0))"
  using count_jumps_bound [of es c p] by (auto simp add: update_jump_fields)

theorem jump_request_is_one_shot_witness:
  "\<not> jump_requested grounded_player \<and>
   jump_requested (handle_action JUMP True grounded_player) \<and>
   on_ground (handle_action JUMP True grounded_player) \<and>
   \<not> is_blocking (handle_action JUMP True grounded_player) \<and>
   snd (velocity (update example_constants (1 / 60)
     (handle_action JUMP True grounded_player))) = -720 \<and>
   \<not> on_ground (update example_constants (1 / 60) (handle_action JUMP True grounded_player)) \<and>
   \<not> jump_requested (update example_constants (1 / 60)
     (handle_action JUMP True grounded_player)) \<and>
   Action JUMP True \<notin> set jumping_events \<and>
   count_jumps example_constants (handle_action JUMP True grounded_player) jumping_events = 1"
proof -
  have a: "jump_requested (handle_action JUMP True grounded_player)"
    "on_ground (handle_action JUMP True grounded_player)"
    "\<not> is_blocking (handle_action JUMP True grounded_player)"
    by (simp_all add: grounded_fields)
  have e: "Action JUMP True \<notin> set jumping_events" by (simp add: jumping_events_def)
  have j: "JUMP_SPEED example_constants * 60 = -720" by (simp add: example_constants_def)
  from jump_request_is_one_shot [of True grounded_player example_constants "1 / 60"
      jumping_events]
    jump_request_is_one_shot [of True "handle_action JUMP True grounded_player"
      example_constants "1 / 60" jumping_events]
    a e j jumping_events_count grounded_fields
  show ?thesis by simp
qed

section \<open>Properties of the scene manager\<close>

subsection \<open>The loader\<close>

lemma split_example:
  "py_split (py_strip ''12.5 40.0 80 cave'') = [''12.5'', ''40.0'', ''80'', ''cave'']"
  "py_split (py_strip ''12.5 40.0 80'') = [''12.5'', ''40.0'', ''80'']"
  "py_split (py_strip ''12.5 40.0'') = [''12.5'', ''40.0'']"
  by (simp_all add: py_split_def py_strip_def isspace_def)

lemma literal_example:
  "decimal_literal ''12.5'' = Some (25 / 2)"
  "decimal_literal ''40.0'' = Some 40"
  "int_literal ''80'' = Some 80"
  by (simp_all add: decimal_literal_def int_literal_def with_sign_def
      unsigned_decimal_literal_def unsigned_int_literal_def digit_value_def)

text \<open>
  The handler catches every exception the body can raise: the index reads are guarded by
  the length tests, and what is left is \<open>IOError\<close> and \<open>ValueError\<close>.
\<close>

lemma load_never_raises:
  "\<exists>st'. load_saved_game float_of int_of sf st = Inr st'"
proof (cases "load_saved_game_body float_of int_of sf st")
  case (Inr st')
  then show ?thesis by (simp add: load_saved_game_def)
next
  case (Inl e)
  have "e = IOError \<or> e = ValueError"
    using Inl
    by (auto simp add: load_saved_game_body_def and_then_def or_value_error_def read_text_def
        py_index_def Let_def split: save_file.splits if_splits sum.splits option.splits)
  with Inl show ?thesis by (auto simp add: load_saved_game_def)
qed

lemma load_saved_game_absent:
  "load_saved_game float_of int_of NoFile st = Inr st"
  by (simp add: load_saved_game_def load_saved_game_body_def)

lemma load_saved_game_read_failure:
  "sf \<in> {Unreadable, Undecodable} \<Longrightarrow>
     load_saved_game float_of int_of sf st = Inr (st\<lparr>saved_data := None\<rparr>)"
  by (auto simp add: load_saved_game_def load_saved_game_body_def and_then_def read_text_def)

lemma load_saved_game_short:
  "length (py_split (py_strip s)) < 3 \<Longrightarrow>
     load_saved_game float_of int_of (Text s) st = Inr st"
  by (simp add: load_saved_game_def load_saved_game_body_def and_then_def read_text_def Let_def)

lemma load_saved_game_malformed:
  assumes "length (py_split (py_strip s)) \<ge> 3"
    and "float_of (py_split (py_strip s) ! 0) = None \<or>
         float_of (py_split (py_strip s) ! 1) = None \<or>
         int_of (py_split (py_strip s) ! 2) = None"
  shows "load_saved_game float_of int_of (Text s) st = Inr (st\<lparr>saved_data := None\<rparr>)"
  using assms
  by (auto simp add: load_saved_game_def load_saved_game_body_def and_then_def read_text_def
      Let_def py_index_def or_value_error_def split: option.splits)

lemma load_saved_game_valid:
  assumes "length (py_split (py_strip s)) \<ge> 3"
    and "float_of (py_split (py_strip s) ! 0) = Some x"
    and "float_of (py_split (py_strip s) ! 1) = Some y"
    and "int_of (py_split (py_strip s) ! 2) = Some h"
  shows "load_saved_game float_of int_of (Text s) st =
     Inr (st\<lparr>saved_data := Some (x, y, h),
              current_level := (if length (py_split (py_strip s)) \<ge> 4
                                then py_split (py_strip s) ! 3 else current_level st)\<rparr>)"
  using assms
  by (auto simp add: load_saved_game_def load_saved_game_body_def and_then_def read_text_def
      Let_def py_index_def or_value_error_def)

subsection \<open>Resolving scene ids\<close>

lemma registered_ids:
  "scene_classes ''menu'' = Some MenuScene" "scene_classes ''settings'' = Some SettingsScene"
  "scene_classes ''game'' = Some GameScene" "scene_classes ''dialog'' = Some DialogScene"
  by (simp_all add: scene_classes_def)

lemma get_scene_new_game:
  assumes "get_scene ce float_of int_of sf0 st ''new_game'' = Inr (sc1, st1)"
  shows "st1 = st\<lparr>saved_data := None, current_level := ''tutorial''\<rparr>"
    and "sc1 = Some (Scene DialogScene (DialogArgs ''introduction'' ''game''))"
  using assms
  by (auto simp add: get_scene_def create_scene_def registered_ids no_kwargs_def Let_def
      split: sum.splits option.splits)

lemma get_scene_continue:
  assumes "get_scene ce float_of int_of sf st1 ''continue'' = Inr (sc2, st2)"
  shows "load_saved_game float_of int_of sf st1 = Inr st2"
    and "sc2 = Some (Scene GameScene (GameArgs (current_level st2) (saved_data st2)))"
  using assms
  by (auto simp add: get_scene_def create_scene_def registered_ids no_kwargs_def Let_def
      split: sum.splits option.splits)

lemma get_scene_continue_ok:
  assumes "load_saved_game float_of int_of sf st = Inr st1"
    and "ce GameScene (GameArgs (current_level st1) (saved_data st1)) = None"
  shows "get_scene ce float_of int_of sf st ''continue'' =
     Inr (Some (Scene GameScene (GameArgs (current_level st1) (saved_data st1))), st1)"
  using assms by (simp add: get_scene_def create_scene_def registered_ids no_kwargs_def)

lemma get_scene_unknown:
  assumes "sid \<notin> {''new_game'', ''continue'', ''game''}" and "sid \<notin> dom scene_classes"
  shows "get_scene ce float_of int_of sf st sid = Inr (None, st)"
proof -
  have none: "scene_classes sid = None" using assms(2) by (simp add: domIff)
  then have "sid \<noteq> ''menu''" "sid \<noteq> ''settings''" using registered_ids by auto
  moreover have "sid \<noteq> ''new_game''" "sid \<noteq> ''continue''" "sid \<noteq> ''game''"
    using assms(1) by simp_all
  ultimately show ?thesis using none by (simp add: get_scene_def create_scene_def)
qed

subsection \<open>The example managers\<close>

lemma manager_fields:
  "current_level held_manager = ''cave''" "saved_data held_manager = Some (25 / 2, 40, 80)"
  "current_level cleared_manager = ''tutorial''" "saved_data cleared_manager = None"
  by (simp_all add: held_manager_def cleared_manager_def)

lemma new_game_example:
  "get_scene no_ctor_error decimal_literal int_literal sf0 held_manager ''new_game'' =
     Inr (Some (Scene DialogScene (DialogArgs ''introduction'' ''game'')), cleared_manager)"
  by (simp add: get_scene_def create_scene_def registered_ids no_kwargs_def no_ctor_error_def
      cleared_manager_def Let_def)

lemma load_example:
  "load_saved_game decimal_literal int_literal (Text ''12.5 40.0 80 cave'') cleared_manager
     = Inr held_manager"
proof -
  have "load_saved_game decimal_literal int_literal (Text ''12.5 40.0 80 cave'') cleared_manager
     = Inr (cleared_manager\<lparr>saved_data := Some (25 / 2, 40, 80), current_level := ''cave''\<rparr>)"
    using load_saved_game_valid [of "''12.5 40.0 80 cave''" decimal_literal "25 / 2" 40
        int_literal 80 cleared_manager]
    by (simp add: split_example literal_example)
  moreover have
    "cleared_manager\<lparr>saved_data := Some (25 / 2, 40, 80), current_level := ''cave''\<rparr>
      = held_manager"
    by (simp add: cleared_manager_def held_manager_def)
  ultimately show ?thesis by simp
qed

lemma continue_example:
  "get_scene no_ctor_error decimal_literal int_literal NoFile cleared_manager ''continue'' =
     Inr (Some (Scene GameScene (GameArgs ''tutorial'' None)), cleared_manager)"
  "get_scene no_ctor_error decimal_literal int_literal (Text ''12.5 40.0 80 cave'')
       cleared_manager ''continue'' =
     Inr (Some (Scene GameScene (GameArgs ''cave'' (Some (25 / 2, 40, 80)))), held_manager)"
proof -
  have "load_saved_game decimal_literal int_literal NoFile cleared_manager = Inr cleared_manager"
    by (simp add: load_saved_game_absent)
  from get_scene_continue_ok [OF this, of no_ctor_error]
  show "get_scene no_ctor_error decimal_literal int_literal NoFile cleared_manager ''continue'' =
     Inr (Some (Scene GameScene (GameArgs ''tutorial'' None)), cleared_manager)"
    by (simp add: manager_fields no_ctor_error_def)
  from get_scene_continue_ok [OF load_example, of no_ctor_error]
  show "get_scene no_ctor_error decimal_literal int_literal (Text ''12.5 40.0 80 cave'')
       cleared_manager ''continue'' =
     Inr (Some (Scene GameScene (GameArgs ''cave'' (Some (25 / 2, 40, 80)))), held_manager)"
    by (simp add: manager_fields no_ctor_error_def)
qed

subsection \<open>New game, then continue\<close>

text \<open>
  C2, as the spec states it, fails: \<open>new_game\<close> clears what the manager holds but leaves
  the save file alone, and \<open>continue\<close> reads that file again. With the save file
  \<open>12.5 40.0 80 cave\<close> on disk, a manager holding that save resolves \<open>new_game\<close> (the
  held data is cleared) and then \<open>continue\<close>: the game scene is constructed with level
  \<open>cave\<close> and the saved data (12.5, 40.0, 80), not with the defaults.
\<close>

theorem continue_after_new_game_reloads_file:
  "get_scene no_ctor_error decimal_literal int_literal (Text ''12.5 40.0 80 cave'') held_manager
       ''new_game'' =
     Inr (Some (Scene DialogScene (DialogArgs ''introduction'' ''game'')), cleared_manager) \<and>
   saved_data cleared_manager = None \<and>
   get_scene no_ctor_error decimal_literal int_literal (Text ''12.5 40.0 80 cave'')
       cleared_manager ''continue'' =
     Inr (Some (Scene GameScene (GameArgs ''cave'' (Some (25 / 2, 40, 80)))), held_manager) \<and>
   Scene GameScene (GameArgs ''cave'' (Some (25 / 2, 40, 80)))
     \<noteq> Scene GameScene (GameArgs ''tutorial'' None)"
  using new_game_example [of "Text ''12.5 40.0 80 cave''"] continue_example(2)
  by (simp add: manager_fields)

text \<open>
  C2, amended. Resolving \<open>new_game\<close> clears the held saved data, resets the level to
  \<open>tutorial\<close> and yields the introduction dialog leading to \<open>game\<close>. A \<open>continue\<close>
  resolved afterwards constructs the game scene from the save file alone: with no saved data
  and level \<open>tutorial\<close> when the file is missing, unreadable, undecodable, shorter than
  three fields or not parseable, and with the file's position, health and level (level
  \<open>tutorial\<close> if the file names none) when the file holds a valid save. What the manager
  held before \<open>new_game\<close> never reaches the scene.
\<close>

theorem new_game_then_continue:
  assumes ng: "get_scene ce float_of int_of sf0 st ''new_game'' = Inr (sc1, st1)"
    and co: "get_scene ce float_of int_of sf st1 ''continue'' = Inr (sc2, st2)"
  shows "saved_data st1 = None \<and> current_level st1 = ''tutorial'' \<and>
    sc1 = Some (Scene DialogScene (DialogArgs ''introduction'' ''game'')) \<and>
    sc2 = Some (Scene GameScene (GameArgs (current_level st2) (saved_data st2))) \<and>
    (sf \<in> {NoFile, Unreadable, Undecodable} \<longrightarrow>
       saved_data st2 = None \<and> current_level st2 = ''tutorial'') \<and>
    (\<forall>s. sf = Text s \<and> length (py_split (py_strip s)) < 3 \<longrightarrow>
       saved_data st2 = None \<and> current_level st2 = ''tutorial'') \<and>
    (\<forall>s. sf = Text s \<and> length (py_split (py_strip s)) \<ge> 3 \<and>
         (float_of (py_split (py_strip s) ! 0) = None \<or>
          float_of (py_split (py_strip s) ! 1) = None \<or>
          int_of (py_split (py_strip s) ! 2) = None) \<longrightarrow>
       saved_data st2 = None \<and> current_level st2 = ''tutorial'') \<and>
    (\<forall>s x y h. sf = Text s \<and> length (py_split (py_strip s)) \<ge> 3 \<and>
         float_of (py_split (py_strip s) ! 0) = Some x \<and>
         float_of (py_split (py_strip s) ! 1) = Some y \<and>
         int_of (py_split (py_strip s) ! 2) = Some h \<longrightarrow>
       saved_data st2 = Some (x, y, h) \<and>
       current_level st2 =
         (if length (py_split (py_strip s)) \<ge> 4 then py_split (py_strip s) ! 3
          else ''tutorial''))"
proof -
  have st1: "st1 = st\<lparr>saved_data := None, current_level := ''tutorial''\<rparr>"
    and sc1: "sc1 = Some (Scene DialogScene (DialogArgs ''introduction'' ''game''))"
    using get_scene_new_game [OF ng] by simp_all
  have ld: "load_saved_game float_of int_of sf st1 = Inr st2"
    and sc2: "sc2 = Some (Scene GameScene (GameArgs (current_level st2) (saved_data st2)))"
    using get_scene_continue [OF co] by simp_all
  have a: "saved_data st2 = None \<and> current_level st2 = ''tutorial''"
    if "sf \<in> {NoFile, Unreadable, Undecodable}"
    using that ld st1
    by (auto simp add: load_saved_game_absent load_saved_game_read_failure)
  have b: "saved_data st2 = None \<and> current_level st2 = ''tutorial''"
    if "sf = Text s" "length (py_split (py_strip s)) < 3" for s
    using that ld load_saved_game_short [of s float_of int_of st1] st1 by auto
  have c: "saved_data st2 = None \<and> current_level st2 = ''tutorial''"
    if "sf = Text s" "length (py_split (py_strip s)) \<ge> 3"
      "float_of (py_split (py_strip s) ! 0) = None \<or>
       float_of (py_split (py_strip s) ! 1) = None \<or>
       int_of (py_split (py_strip s) ! 2) = None" for s
    using that ld load_saved_game_malformed [of s float_of int_of st1] st1 by auto
  have d: "saved_data st2 = Some (x, y, h) \<and>
       current_level st2 =
         (if length (py_split (py_strip s)) \<ge> 4 then py_split (py_strip s) ! 3
          else ''tutorial'')"
    if "sf = Text s" "length (py_split (py_strip s)) \<ge> 3"
      "float_of (py_split (py_strip s) ! 0) = Some x"
      "float_of (py_split (py_strip s) ! 1) = Some y"
      "int_of (py_split (py_strip s) ! 2) = Some h" for s x y h
    using that ld load_saved_game_valid [of s float_of x y int_of h st1] st1 by auto
  from st1 sc1 sc2 a b c d show ?thesis by simp
qed

theorem new_game_then_continue_witness:
  "saved_data held_manager = Some (25 / 2, 40, 80) \<and>
   get_scene no_ctor_error decimal_literal int_literal NoFile held_manager ''new_game'' =
     Inr (Some (Scene DialogScene (DialogArgs ''introduction'' ''game'')), cleared_manager) \<and>
   get_scene no_ctor_error decimal_literal int_literal NoFile cleared_manager ''continue'' =
     Inr (Some (Scene GameScene (GameArgs ''tutorial'' None)), cleared_manager) \<and>
   saved_data cleared_manager = None \<and> current_level cleared_manager = ''tutorial'' \<and>
   get_scene no_ctor_error decimal_literal int_literal (Text ''12.5 40.0 80 cave'')
       cleared_manager ''continue'' =
     Inr (Some (Scene GameScene (GameArgs ''cave'' (Some (25 / 2, 40, 80)))), held_manager)"
proof -
  have ng: "get_scene no_ctor_error decimal_literal int_literal NoFile held_manager ''new_game''
     = Inr (Some (Scene DialogScene (DialogArgs ''introduction'' ''game'')), cleared_manager)"
    by (rule new_game_example)
  have co: "get_scene no_ctor_error decimal_literal int_literal NoFile cleared_manager
     ''continue'' = Inr (Some (Scene GameScene (GameArgs ''tutorial'' None)), cleared_manager)"
    by (rule continue_example)
  have co2: "get_scene no_ctor_error decimal_literal int_literal (Text ''12.5 40.0 80 cave'')
       cleared_manager ''continue'' =
     Inr (Some (Scene GameScene (GameArgs ''cave'' (Some (25 / 2, 40, 80)))), held_manager)"
    by (rule continue_example)
  from new_game_then_continue [OF ng co] new_game_then_continue [OF ng co2] ng co co2
  show ?thesis by (simp add: manager_fields)
qed

subsection \<open>Unknown scene ids\<close>

lemma run_loop_append:
  "run_loop ce float_of int_of st sf cur pre = Inr (Running cid sc st1) \<Longrightarrow>
   run_loop ce float_of int_of st sf cur (pre @ (tok, sf1) # rest) =
     run_loop ce float_of int_of st1 sf1 (handle_transition cid tok) rest"
proof (induction pre arbitrary: st sf cur)
  case Nil
  then show ?case
    by (cases cur) (auto split: if_splits sum.splits option.splits prod.splits)
next
  case (Cons r pre)
  obtain t f where r: "r = (t, f)" by (cases r)
  from Cons.prems obtain sid where cur: "cur = Some sid" by (cases cur) auto
  from Cons.prems cur have guard: "\<not> (sid = [] \<or> sid = ''exit'')"
    by (auto split: if_splits)
  from Cons.prems cur guard r obtain scene st2 where
    gs: "get_scene ce float_of int_of sf st sid = Inr (Some scene, st2)" and
    nxt: "run_loop ce float_of int_of st2 f (handle_transition sid t) pre
            = Inr (Running cid sc st1)"
    by (auto split: sum.splits option.splits prod.splits)
  from Cons.IH [OF nxt] cur guard gs r show ?case by simp
qed

lemma transition_map_targets:
  "transition_map t = Some (Some sid) \<Longrightarrow>
     sid \<in> {''menu'', ''settings'', ''new_game'', ''continue'', ''game''}"
  by (simp add: transition_map_def split: if_splits)

lemma transition_map_exit: "transition_map ''exit'' = Some None"
  by (simp add: transition_map_def)

text \<open>
  The ids the loop gets from a transition are never empty and never \<open>exit\<close>: the loop's
  guard ends the loop only on an absent id.
\<close>

lemma handle_transition_not_terminator:
  assumes "handle_transition from_scene tok = Some sid"
  shows "sid \<noteq> [] \<and> sid \<noteq> ''exit''"
proof -
  from assms obtain t where t: "tok = Some t" "t \<noteq> []"
    by (cases tok) (auto simp add: handle_transition_def split: if_splits)
  show ?thesis
  proof (cases "transition_map t")
    case None
    with assms t have "sid = t" by (simp add: handle_transition_def)
    moreover have "t \<noteq> ''exit''" using None transition_map_exit by auto
    ultimately show ?thesis using t by simp
  next
    case (Some target)
    with assms t have "target = Some sid" by (simp add: handle_transition_def)
    with Some have "sid \<in> {''menu'', ''settings'', ''new_game'', ''continue'', ''game''}"
      using transition_map_targets by simp
    then show ?thesis by auto
  qed
qed

lemma run_menu_example:
  "run no_ctor_error decimal_literal int_literal new_manager NoFile [] =
     Inr (Running ''menu'' (Scene MenuScene NoArgs) menu_manager)"
  by (simp add: run_def get_scene_def create_scene_def registered_ids no_ctor_error_def
      new_manager_def menu_manager_def)

lemma credits_example:
  "handle_transition ''menu'' (Some ''credits'') = Some ''credits''"
  "''credits'' \<notin> {''new_game'', ''continue'', ''game''}"
  "''credits'' \<notin> dom scene_classes"
  by (simp_all add: handle_transition_def transition_map_def scene_classes_def)

text \<open>
  C9. The loop starts at \<open>menu\<close> and takes every later scene id from the transition of the
  token the running scene returned. Whenever such an id is neither \<open>new_game\<close>,
  \<open>continue\<close> or \<open>game\<close> nor a registered scene class, \<open>run\<close> ends with
  \<open>SceneError\<close> naming the id, whatever the scenes would have returned afterwards.
\<close>

theorem unknown_scene_id_is_fatal:
  assumes "run ce float_of int_of st sf pre = Inr (Running cid sc st1)"
    and "handle_transition cid tok = Some sid"
    and "sid \<notin> {''new_game'', ''continue'', ''game''}"
    and "sid \<notin> dom scene_classes"
  shows "run ce float_of int_of st sf (pre @ (tok, sf1) # rest) =
     Inl (SceneError (''Unknown scene: '' @ sid))"
proof -
  have "run ce float_of int_of st sf (pre @ (tok, sf1) # rest) =
      run_loop ce float_of int_of st1 sf1 (Some sid) rest"
    using assms(1,2) run_loop_append [of ce float_of int_of st sf "Some ''menu''" pre cid sc st1]
    by (simp add: run_def)
  moreover have "sid \<noteq> [] \<and> sid \<noteq> ''exit''"
    using assms(2) by (rule handle_transition_not_terminator)
  moreover have "get_scene ce float_of int_of sf1 st1 sid = Inr (None, st1)"
    using assms(3,4) by (rule get_scene_unknown)
  ultimately show ?thesis by simp
qed

theorem unknown_scene_id_is_fatal_witness:
  "run no_ctor_error decimal_literal int_literal new_manager NoFile [] =
     Inr (Running ''menu'' (Scene MenuScene NoArgs) menu_manager) \<and>
   handle_transition ''menu'' (Some ''credits'') = Some ''credits'' \<and>
   ''credits'' \<notin> {''new_game'', ''continue'', ''game''} \<and>
   ''credits'' \<notin> dom scene_classes \<and>
   run no_ctor_error decimal_literal int_literal new_manager NoFile
       [(Some ''credits'', NoFile), (Some ''menu'', NoFile)] =
     Inl (SceneError ''Unknown scene: credits'')"
  using unknown_scene_id_is_fatal [OF run_menu_example credits_example,
      of NoFile "[(Some ''menu'', NoFile)]"]
    run_menu_example credits_example
  by simp

subsection \<open>Loading without a usable file\<close>

text \<open>
  C10. The loader never lets an exception out (\<open>load_never_raises\<close>), and a file that is
  unreadable or fails to parse clears the saved data. A missing file and a file with fewer
  than three fields, however, leave the saved data as it was. A new manager loads the file
  \<open>12.5 40.0 80\<close>; when the file is then missing, or cut down to \<open>12.5 40.0\<close>, loading
  again leaves the manager holding (12.5, 40.0, 80) instead of no save.
\<close>

theorem missing_or_short_file_keeps_held_save:
  "load_saved_game decimal_literal int_literal (Text ''12.5 40.0 80'') new_manager
     = Inr loaded_manager \<and>
   saved_data loaded_manager = Some (25 / 2, 40, 80) \<and>
   load_saved_game decimal_literal int_literal NoFile loaded_manager = Inr loaded_manager \<and>
   load_saved_game decimal_literal int_literal (Text ''12.5 40.0'') loaded_manager
     = Inr loaded_manager"
proof -
  have "load_saved_game decimal_literal int_literal (Text ''12.5 40.0 80'') new_manager
     = Inr loaded_manager"
    using load_saved_game_valid [of "''12.5 40.0 80''" decimal_literal "25 / 2" 40
        int_literal 80 new_manager]
    by (simp add: split_example literal_example loaded_manager_def new_manager_def)
  moreover have "load_saved_game decimal_literal int_literal (Text ''12.5 40.0'') loaded_manager
     = Inr loaded_manager"
    by (rule load_saved_game_short) (simp add: split_example)
  moreover have "saved_data loaded_manager = Some (25 / 2, 40, 80)"
    by (simp add: loaded_manager_def)
  ultimately show ?thesis by (simp add: load_saved_game_absent)
qed

end
